theory Spec2Isabelle
  imports Complex_Main "HOL-Library.List_Lexorder"
begin

section \<open>The elastic-tensor core of pyiron/atomistics/master/elastic.py\<close>

text \<open>
  The module works on numpy arrays of floats. Arrays are modelled as nested lists and
  floats as real numbers: every statement below is about the exact arithmetic the
  floating-point code approximates. An n x 3 x 3 array is a list of 3 x 3 matrices, a
  matrix is a list of rows.

  Every error of the module is a Python \<^verbatim>\<open>ValueError\<close>; the constructors below name
  the place that raises it:
  \<^item> \<open>Not_enough_points\<close>: \<^verbatim>\<open>ValueError('Not enough points')\<close>, line 101;
  \<^item> \<open>Provide_stress_or_energy_volume\<close>: \<^verbatim>\<open>ValueError('You have to provide either strain
    and stress, or strain, energy and volume of same length.')\<close>, line 115;
  \<^item> \<open>Orientation_not_orthogonal\<close>: \<^verbatim>\<open>ValueError('orientation must be an orthogonal 3x3
    tensor')\<close>, line 43;
  \<^item> \<open>Operands_not_broadcast\<close>: the \<^verbatim>\<open>ValueError\<close> numpy raises for
    \<^verbatim>\<open>a[mask] *= b\<close> when the shape of \<^verbatim>\<open>b\<close> is neither that of \<^verbatim>\<open>a[mask]\<close> nor
    \<^verbatim>\<open>(1,)\<close> (line 80).
\<close>

datatype error =
    Not_enough_points
  | Provide_stress_or_energy_volume
  | Orientation_not_orthogonal
  | Operands_not_broadcast

type_synonym vec = "real list"
type_synonym mat = "real list list"
type_synonym tensor4 = "real list list list list"

subsection \<open>Array helpers\<close>

definition eye :: "nat \<Rightarrow> mat" where
  "eye n = map (\<lambda>i. map (\<lambda>j. if i = j then 1 else 0) [0..<n]) [0..<n]"

definition ncols :: "'a list list \<Rightarrow> nat" where
  "ncols X = (case X of [] \<Rightarrow> 0 | row # _ \<Rightarrow> length row)"

definition setitem2 :: "mat \<Rightarrow> nat \<Rightarrow> nat \<Rightarrow> real \<Rightarrow> mat" where
  "setitem2 A a b v = A[a := (A ! a)[b := v]]"

definition setitem4 :: "tensor4 \<Rightarrow> nat \<Rightarrow> nat \<Rightarrow> nat \<Rightarrow> nat \<Rightarrow> real \<Rightarrow> tensor4" where
  "setitem4 C i j k l v =
     C[i := (C ! i)[j := (C ! i ! j)[k := (C ! i ! j ! k)[l := v]]]]"

definition zeros4 :: tensor4 where
  "zeros4 = replicate 3 (replicate 3 (replicate 3 (replicate 3 0)))"

definition zeros_like :: "mat \<Rightarrow> mat" where
  "zeros_like A = map (map (\<lambda>_. 0)) A"

text \<open>The four nested \<^verbatim>\<open>for ... in range(3)\<close> loops, in the order they run.\<close>

definition indices4 :: "(nat \<times> nat \<times> nat \<times> nat) list" where
  "indices4 = [(i, j, k, l). i \<leftarrow> [0..<3], j \<leftarrow> [0..<3], k \<leftarrow> [0..<3], l \<leftarrow> [0..<3]]"

subsection \<open>The unit-conversion constant (lines 26-28)\<close>

text \<open>
  \<^verbatim>\<open>eV_div_A3_to_GPa = 1e21 / scipy.constants.physical_constants["joule-electron volt
  relationship"][0]\<close>. The table belongs to scipy; its entry is the parameter
  \<open>joule_eV\<close>: the number of electron volts in one joule.
\<close>

definition eV_div_A3_to_GPa :: "real \<Rightarrow> real" where
  "eV_div_A3_to_GPa joule_eV = 10 ^ 21 / joule_eV"

text \<open>
  CODATA 2018 (exact since the 2019 redefinition of the SI): the elementary charge in
  coulombs, and scipy's table entry for the joule-electron volt relationship, which is
  its reciprocal rounded to ten digits.
\<close>

definition elementary_charge :: real where
  "elementary_charge = 1602176634 / 10 ^ 28"

definition joule_electron_volt_relationship :: real where
  "joule_electron_volt_relationship = 6241509074 * 10 ^ 9"

subsection \<open>get_elastic_tensor_by_orientation (lines 30-57)\<close>

definition linalg_norm :: "vec \<Rightarrow> real" where
  "linalg_norm v = sqrt (\<Sum>x\<leftarrow>v. x * x)"

text \<open>
  Line 41, \<^verbatim>\<open>np.einsum('ij,i->ij', orientation, 1/np.linalg.norm(orientation, axis=-1))\<close>.
  For a zero row numpy computes \<^verbatim>\<open>1/0 = inf\<close> and the row becomes nan, so the
  determinant test below fails; in HOL \<open>1 / 0 = 0\<close>, the row stays zero, the
  determinant is 0 and the test fails as well.
\<close>

definition normalize_rows :: "mat \<Rightarrow> mat" where
  "normalize_rows orientation =
     map (\<lambda>row. map (\<lambda>x. x * (1 / linalg_norm row)) row) orientation"

definition det3 :: "mat \<Rightarrow> real" where
  "det3 M =
     M ! 0 ! 0 * (M ! 1 ! 1 * M ! 2 ! 2 - M ! 1 ! 2 * M ! 2 ! 1)
   - M ! 0 ! 1 * (M ! 1 ! 0 * M ! 2 ! 2 - M ! 1 ! 2 * M ! 2 ! 0)
   + M ! 0 ! 2 * (M ! 1 ! 0 * M ! 2 ! 1 - M ! 1 ! 1 * M ! 2 ! 0)"

text \<open>\<^verbatim>\<open>np.isclose(a, b)\<close> with numpy's defaults \<^verbatim>\<open>rtol=1e-05, atol=1e-08\<close>.\<close>

definition isclose :: "real \<Rightarrow> real \<Rightarrow> bool" where
  "isclose a b = (\<bar>a - b\<bar> \<le> 1 / 10 ^ 8 + 1 / 10 ^ 5 * \<bar>b\<bar>)"

text \<open>
  The index expression of lines 49 and 56, \<^verbatim>\<open>i+(i!=j)*(6-2*i-j)\<close>, on Python's
  integers (the comparison counts as 0 or 1).
\<close>

definition voigt_index :: "nat \<Rightarrow> nat \<Rightarrow> nat" where
  "voigt_index i j =
     nat (int i + (if i \<noteq> j then 1 else 0) * (6 - 2 * int i - int j))"

text \<open>Lines 44-49: the 6x6 tensor expanded into \<^verbatim>\<open>C = np.zeros((3,3,3,3))\<close>.\<close>

definition voigt_to_full :: "mat \<Rightarrow> tensor4" where
  "voigt_to_full elastic_tensor =
     fold (\<lambda>(i, j, k, l) C.
             setitem4 C i j k l (elastic_tensor ! voigt_index i j ! voigt_index k l))
          indices4 zeros4"

text \<open>Line 50: \<^verbatim>\<open>np.einsum('Ii,Jj,ijkl,Kk,Ll->IJKL', orientation, orientation, C,
  orientation, orientation)\<close>.\<close>

definition einsum_rotate :: "mat \<Rightarrow> tensor4 \<Rightarrow> tensor4" where
  "einsum_rotate R C =
     map (\<lambda>I. map (\<lambda>J. map (\<lambda>K. map (\<lambda>L.
       (\<Sum>(i, j, k, l)\<leftarrow>indices4.
          R ! I ! i * R ! J ! j * C ! i ! j ! k ! l * R ! K ! k * R ! L ! l))
       [0..<3]) [0..<3]) [0..<3]) [0..<3]"

text \<open>
  Lines 51-56: the contraction back into \<^verbatim>\<open>np.zeros_like(elastic_tensor)\<close>. Several
  index quadruples write the same cell; the last write stays.
\<close>

definition full_to_voigt :: "tensor4 \<Rightarrow> mat \<Rightarrow> mat" where
  "full_to_voigt C elastic_tensor =
     fold (\<lambda>(i, j, k, l) A.
             setitem2 A (voigt_index i j) (voigt_index k l) (C ! i ! j ! k ! l))
          indices4 (zeros_like elastic_tensor)"

definition get_elastic_tensor_by_orientation :: "mat \<Rightarrow> mat \<Rightarrow> error + mat" where
  "get_elastic_tensor_by_orientation orientation elastic_tensor =
     (let orientation = normalize_rows orientation in
      if \<not> isclose (det3 orientation) 1 then Inl Orientation_not_orthogonal
      else Inr (full_to_voigt (einsum_rotate orientation (voigt_to_full elastic_tensor))
                  elastic_tensor))"

subsection \<open>sklearn's LinearRegression\<close>

text \<open>
  \<^verbatim>\<open>LinearRegression().fit(X, y)\<close> is a library call. The model takes the fitting
  function as a parameter: it maps a design matrix (a list of sample rows) and a target
  vector to the fitted model, whose field \<open>r2_score\<close> is \<^verbatim>\<open>reg.score(X, y)\<close> on the same data.
\<close>

record regression =
  coef :: vec
  intercept :: real
  r2_score :: real

type_synonym linear_regression = "mat \<Rightarrow> vec \<Rightarrow> regression"

text \<open>
  What the library documents about the fit: with the default \<^verbatim>\<open>fit_intercept=True\<close>
  the coefficients and the intercept minimise the residual sum of squares of
  \<open>y \<approx> intercept + X \<cdot> coef\<close>, and there is one coefficient per column.
\<close>

definition dot :: "vec \<Rightarrow> vec \<Rightarrow> real" where
  "dot c x = (\<Sum>(a, b)\<leftarrow>zip c x. a * b)"

definition rss :: "mat \<Rightarrow> vec \<Rightarrow> real \<Rightarrow> vec \<Rightarrow> real" where
  "rss X y b c = (\<Sum>n\<leftarrow>[0..<length X]. (y ! n - (b + dot c (X ! n))) ^ 2)"

definition least_squares_with_intercept :: "mat \<Rightarrow> vec \<Rightarrow> real \<Rightarrow> vec \<Rightarrow> bool" where
  "least_squares_with_intercept X y b c \<longleftrightarrow>
     length c = ncols X \<and>
     (\<forall>b' c'. length c' = ncols X \<longrightarrow> rss X y b c \<le> rss X y b' c')"

text \<open>The regression without intercept: \<open>y \<approx> X \<cdot> coef\<close>.\<close>

definition least_squares_without_intercept :: "mat \<Rightarrow> vec \<Rightarrow> vec \<Rightarrow> bool" where
  "least_squares_without_intercept X y c \<longleftrightarrow>
     length c = ncols X \<and>
     (\<forall>c'. length c' = ncols X \<longrightarrow> rss X y 0 c \<le> rss X y 0 c')"

subsection \<open>Rotation of the samples and Voigt vectors (lines 60-61, 108-109)\<close>

text \<open>
  \<^verbatim>\<open>np.einsum('nik,mkl,njl->nmij', rotations, x, rotations).reshape(-1, 3, 3)\<close>:
  every sample under every rotation, the rotation index running slowest.
\<close>

definition rotate3 :: "mat \<Rightarrow> mat \<Rightarrow> mat" where
  "rotate3 R S =
     map (\<lambda>i. map (\<lambda>j. (\<Sum>k\<leftarrow>[0..<3]. \<Sum>l\<leftarrow>[0..<3]. R ! i ! k * S ! k ! l * R ! j ! l))
       [0..<3]) [0..<3]"

definition einsum_rotations :: "mat list \<Rightarrow> mat list \<Rightarrow> mat list" where
  "einsum_rotations rotations xs = concat (map (\<lambda>R. map (rotate3 R) xs) rotations)"

definition voigt_strain :: "mat \<Rightarrow> vec" where
  "voigt_strain s =
     [s ! 0 ! 0, s ! 1 ! 1, s ! 2 ! 2, 2 * s ! 1 ! 2, 2 * s ! 0 ! 2, 2 * s ! 0 ! 1]"

definition voigt_stress :: "mat \<Rightarrow> vec" where
  "voigt_stress s = [s ! 0 ! 0, s ! 1 ! 1, s ! 2 ! 2, s ! 1 ! 2, s ! 0 ! 2, s ! 0 ! 1]"

subsection \<open>The stress-based fit (lines 59-68)\<close>

text \<open>
  \<open>strain\<close> is the list of Voigt strain vectors (already rotated), \<open>stress\<close> the list
  of 3 x 3 stress matrices as supplied. The loop over \<^verbatim>\<open>range(6)\<close> appends one
  coefficient vector and one score per stress component.
\<close>

definition stress_component :: "mat list \<Rightarrow> mat list \<Rightarrow> nat \<Rightarrow> vec" where
  "stress_component stress rotations ii =
     map (\<lambda>s. voigt_stress s ! ii) (einsum_rotations rotations stress)"

definition fit_coeffs_with_stress ::
  "linear_regression \<Rightarrow> mat \<Rightarrow> mat list \<Rightarrow> mat list \<Rightarrow> mat \<times> vec" where
  "fit_coeffs_with_stress fit strain stress rotations =
     (map (\<lambda>ii. coef (fit strain (stress_component stress rotations ii))) [0..<6],
      map (\<lambda>ii. r2_score (fit strain (stress_component stress rotations ii))) [0..<6])"

subsection \<open>The energy-based fit (lines 70-83)\<close>

definition np_tile :: "'a list \<Rightarrow> nat \<Rightarrow> 'a list" where
  "np_tile xs n = concat (replicate n xs)"

text \<open>Line 73: \<^verbatim>\<open>np.einsum('n,ni,nj->nij', 0.5*volume, strain, strain)\<close>.\<close>

definition strain_products :: "vec \<Rightarrow> mat \<Rightarrow> mat list" where
  "strain_products volume strain =
     map (\<lambda>(v, s). map (\<lambda>i. map (\<lambda>j. 0.5 * v * s ! i * s ! j) [0..<length s]) [0..<length s])
       (zip volume strain)"

definition np_triu :: "mat \<Rightarrow> mat" where
  "np_triu M =
     map (\<lambda>i. map (\<lambda>j. if i \<le> j then M ! i ! j else 0) [0..<length (M ! i)]) [0..<length M]"

text \<open>Line 75: \<^verbatim>\<open>C[:, np.sum(C, axis=0) != 0]\<close> keeps the columns whose sum is not 0.\<close>

definition nonzero_sum_columns :: "mat \<Rightarrow> nat list" where
  "nonzero_sum_columns C = filter (\<lambda>c. (\<Sum>row\<leftarrow>C. row ! c) \<noteq> 0) [0..<ncols C]"

definition select_columns :: "mat \<Rightarrow> nat list \<Rightarrow> mat" where
  "select_columns C cols = map (\<lambda>row. map (\<lambda>c. row ! c) cols) C"

text \<open>Lines 73-76: the design matrix of the energy fit, the column of ones first.\<close>

definition energy_design :: "vec \<Rightarrow> mat \<Rightarrow> mat" where
  "energy_design volume strain =
     (let C = map (\<lambda>M. concat (np_triu M)) (strain_products volume strain);
          C = select_columns C (nonzero_sum_columns C)
      in map (\<lambda>row. 1 # row) C)"

text \<open>
  Line 80: \<^verbatim>\<open>coeff[coeff!=0] *= rhs\<close>. numpy multiplies the selected entries, in
  row-major order, by \<open>rhs\<close> element by element when the lengths agree, by the single
  element of \<open>rhs\<close> when it has one, and raises otherwise.
\<close>

definition imul_nonzero :: "vec \<Rightarrow> vec \<Rightarrow> error + vec" where
  "imul_nonzero coeff rhs =
     (let idx = filter (\<lambda>p. coeff ! p \<noteq> 0) [0..<length coeff] in
      if length rhs = length idx then
        Inr (fold (\<lambda>(p, r) a. a[p := coeff ! p * r]) (zip idx rhs) coeff)
      else if length rhs = 1 then
        Inr (fold (\<lambda>p a. a[p := coeff ! p * rhs ! 0]) idx coeff)
      else Inl Operands_not_broadcast)"

definition reshape_6_6 :: "vec \<Rightarrow> mat" where
  "reshape_6_6 v = map (\<lambda>i. take 6 (drop (6 * i) v)) [0..<6]"

text \<open>Line 82: \<^verbatim>\<open>0.5*(coeff+coeff.T)\<close> on a 6 x 6 array.\<close>

definition symmetrize :: "mat \<Rightarrow> mat" where
  "symmetrize M = map (\<lambda>i. map (\<lambda>j. 0.5 * (M ! i ! j + M ! j ! i)) [0..<6]) [0..<6]"

definition fit_coeffs_with_energies ::
  "linear_regression \<Rightarrow> real \<Rightarrow> mat \<Rightarrow> vec \<Rightarrow> vec \<Rightarrow> mat list \<Rightarrow> error + mat \<times> real" where
  "fit_coeffs_with_energies fit joule_eV strain energy volume rotations =
     (let energy = np_tile energy (length rotations);
          volume = np_tile volume (length rotations);
          C = energy_design volume strain;
          reg = fit C energy;
          coeff = concat (np_triu (replicate 6 (replicate 6 1)))
      in case imul_nonzero coeff
                (map (\<lambda>c. c * eV_div_A3_to_GPa joule_eV) (tl (coef reg))) of
           Inl e \<Rightarrow> Inl e
         | Inr coeff \<Rightarrow> Inr (symmetrize (reshape_6_6 coeff), r2_score reg))"

subsection \<open>The reduction of the rotations (lines 103-105 and 215-216)\<close>

text \<open>
  \<^verbatim>\<open>np.round(x, 6)\<close> is \<^verbatim>\<open>rint(x * 1e6) / 1e6\<close>, and \<^verbatim>\<open>rint\<close> rounds to the nearest
  integer, a tie to the even one.
\<close>

definition rint :: "real \<Rightarrow> real" where
  "rint x =
     (let f = \<lfloor>x\<rfloor>; d = x - of_int f in
      if d < 1 / 2 then of_int f
      else if 1 / 2 < d then of_int (f + 1)
      else if even f then of_int f else of_int (f + 1))"

definition np_round :: "nat \<Rightarrow> real \<Rightarrow> real" where
  "np_round decimals x = rint (x * 10 ^ decimals) / 10 ^ decimals"

text \<open>
  \<^verbatim>\<open>np.unique(a)\<close> returns the sorted distinct elements; with \<^verbatim>\<open>axis=0\<close> the elements
  are the flattened sub-arrays in lexicographic order, and \<^verbatim>\<open>return_inverse=True\<close> adds,
  for every element of the input, its position among the sorted distinct ones.
\<close>

fun index_of :: "'a \<Rightarrow> 'a list \<Rightarrow> nat" where
  "index_of x [] = 0"
| "index_of x (y # ys) = (if x = y then 0 else Suc (index_of x ys))"

definition np_unique :: "('a::linorder) list \<Rightarrow> 'a list" where
  "np_unique xs = sort (remdups xs)"

definition np_unique_inverse :: "('a::linorder) list \<Rightarrow> nat list" where
  "np_unique_inverse xs = map (\<lambda>x. index_of x (np_unique xs)) xs"

definition rounded_key :: "mat \<Rightarrow> vec" where
  "rounded_key R = concat (map (map (np_round 6)) R)"

text \<open>
  Lines 104-105 (and 215-216):
  \<^verbatim>\<open>_, indices = np.unique(np.round(rotations, 6), axis=0, return_inverse=True)\<close>,
  \<^verbatim>\<open>rotations = rotations[np.unique(indices)]\<close>.
\<close>

definition unique_rotations :: "mat list \<Rightarrow> mat list" where
  "unique_rotations rotations =
     (let indices = np_unique_inverse (map rounded_key rotations)
      in map (\<lambda>i. rotations ! i) (np_unique indices))"

subsection \<open>calc_elastic_tensor (lines 85-119)\<close>

datatype fit_score = Scores vec | Score real

text \<open>
  \<open>None\<close> is Python's \<^verbatim>\<open>None\<close>. The tensor is returned with the score when
  \<open>return_score\<close> is set, alone otherwise.
\<close>

definition used_rotations :: "mat list option \<Rightarrow> mat list" where
  "used_rotations rotations =
     (case rotations of
        Some rs \<Rightarrow> unique_rotations (eye 3 # rs)
      | None \<Rightarrow> [eye 3])"

definition augmented_strain :: "mat list \<Rightarrow> mat list \<Rightarrow> mat" where
  "augmented_strain rotations strain = map voigt_strain (einsum_rotations rotations strain)"

definition stress_usable :: "mat list option \<Rightarrow> mat list \<Rightarrow> mat \<Rightarrow> bool" where
  "stress_usable stress rotations strain \<longleftrightarrow>
     stress \<noteq> None \<and> length (the stress) * length rotations = length strain"

definition energy_usable :: "vec option \<Rightarrow> vec option \<Rightarrow> mat list \<Rightarrow> mat \<Rightarrow> bool" where
  "energy_usable energy volume rotations strain \<longleftrightarrow>
     energy \<noteq> None \<and> volume \<noteq> None \<and>
     length (the energy) * length rotations = length strain \<and>
     length (the energy) = length (the volume)"

definition calc_elastic_tensor ::
  "linear_regression \<Rightarrow> real \<Rightarrow> mat list \<Rightarrow> mat list option \<Rightarrow> vec option \<Rightarrow> vec option \<Rightarrow>
   mat list option \<Rightarrow> bool \<Rightarrow> error + mat \<times> fit_score option" where
  "calc_elastic_tensor fit joule_eV strain stress energy volume rotations return_score =
     (if length strain = 0 then Inl Not_enough_points
      else
        let rotations = used_rotations rotations;
            strain = augmented_strain rotations strain;
            fitted =
              (if stress_usable stress rotations strain then
                 (case fit_coeffs_with_stress fit strain (the stress) rotations of
                    (coeff, score) \<Rightarrow> Inr (coeff, Scores score))
               else if energy_usable energy volume rotations strain then
                 (case fit_coeffs_with_energies fit joule_eV strain (the energy) (the volume)
                         rotations of
                    Inl e \<Rightarrow> Inl e
                  | Inr (coeff, score) \<Rightarrow> Inr (coeff, Score score))
               else Inl Provide_stress_or_energy_volume)
        in case fitted of
             Inl e \<Rightarrow> Inl e
           | Inr (coeff, score) \<Rightarrow> Inr (coeff, if return_score then Some score else None))"

subsection \<open>Shapes, the index map as the specification words it, and sample data\<close>

definition is_6x6 :: "mat \<Rightarrow> bool" where
  "is_6x6 A \<longleftrightarrow> length A = 6 \<and> list_all (\<lambda>row. length row = 6) A"

text \<open>
  The index map in the words of the specification:
  \<open>m(i,j) = i if i==j else 6-2*min(i,j)-max(i,j)\<close>. It is not the map of the code; it
  is defined here only to be compared with \<open>voigt_index\<close>.
\<close>

definition voigt_index_spec :: "nat \<Rightarrow> nat \<Rightarrow> nat" where
  "voigt_index_spec i j = (if i = j then i else 6 - 2 * min i j - max i j)"

text \<open>A symmetric 6 x 6 tensor with the entry \<open>(a + 1) * (b + 1)\<close> in cell \<open>(a, b)\<close>.\<close>

definition sample_tensor :: mat where
  "sample_tensor =
     [[1, 2, 3, 4, 5, 6],
      [2, 4, 6, 8, 10, 12],
      [3, 6, 9, 12, 15, 18],
      [4, 8, 12, 16, 20, 24],
      [5, 10, 15, 20, 25, 30],
      [6, 12, 18, 24, 30, 36]]"

text \<open>
  A second 6 x 6 array, with every entry 7: a template for the shape of an output that
  shares no entry with \<open>sample_tensor\<close>.
\<close>

definition template_tensor :: mat where
  "template_tensor =
     [[7, 7, 7, 7, 7, 7],
      [7, 7, 7, 7, 7, 7],
      [7, 7, 7, 7, 7, 7],
      [7, 7, 7, 7, 7, 7],
      [7, 7, 7, 7, 7, 7],
      [7, 7, 7, 7, 7, 7]]"

text \<open>
  The rotation by 90 degrees about the z axis, and an identity matrix perturbed by
  \<open>5 * 10^-8\<close> in two entries.
\<close>

definition rot90_z :: mat where
  "rot90_z = [[0, -1, 0], [1, 0, 0], [0, 0, 1]]"

definition eye3_perturbed :: mat where
  "eye3_perturbed = [[1 + 5 / 10 ^ 8, 0, 0], [0, 1, 0], [0, 0, 1 - 5 / 10 ^ 8]]"

subsection \<open>Sample inputs and two regressions on them\<close>

text \<open>
  Seven strain tensors: the unstrained cell, and one tensor for each Voigt component,
  which is the only one that is not zero and equals 1. With the identity as only
  rotation their Voigt vectors are the rows of \<open>unit_design\<close>.
\<close>

definition unit_strains :: "mat list" where
  "unit_strains =
     [[[0, 0, 0], [0, 0, 0], [0, 0, 0]],
      [[1, 0, 0], [0, 0, 0], [0, 0, 0]],
      [[0, 0, 0], [0, 1, 0], [0, 0, 0]],
      [[0, 0, 0], [0, 0, 0], [0, 0, 1]],
      [[0, 0, 0], [0, 0, 1 / 2], [0, 1 / 2, 0]],
      [[0, 0, 1 / 2], [0, 0, 0], [1 / 2, 0, 0]],
      [[0, 1 / 2, 0], [1 / 2, 0, 0], [0, 0, 0]]]"

definition unit_design :: mat where
  "unit_design =
     [[0, 0, 0, 0, 0, 0],
      [1, 0, 0, 0, 0, 0],
      [0, 1, 0, 0, 0, 0],
      [0, 0, 1, 0, 0, 0],
      [0, 0, 0, 1, 0, 0],
      [0, 0, 0, 0, 1, 0],
      [0, 0, 0, 0, 0, 1]]"

text \<open>
  The least-squares fit with intercept on \<open>unit_design\<close>: seven samples determine the
  intercept and the six coefficients, \<open>intercept = y\<^sub>0\<close> and \<open>coef\<^sub>k = y\<^sub>k\<^sub>+\<^sub>1 - y\<^sub>0\<close>, and the
  fit is exact, so that its score is 1.
\<close>

definition fit_unit_design :: linear_regression where
  "fit_unit_design X y =
     \<lparr>coef = map (\<lambda>k. y ! Suc k - y ! 0) [0..<6], intercept = y ! 0, r2_score = 1\<rparr>"

text \<open>
  Stresses for \<open>unit_strains\<close>: in the first list the only stress is \<open>\<sigma>\<^sub>x\<^sub>x = 1\<close> in the
  sample strained along y; in the second every sample, the unstrained one too, has the
  same stress \<open>\<sigma>\<^sub>x\<^sub>x = 1\<close>.
\<close>

definition stress_xx_from_eyy :: "mat list" where
  "stress_xx_from_eyy =
     [[[0, 0, 0], [0, 0, 0], [0, 0, 0]],
      [[0, 0, 0], [0, 0, 0], [0, 0, 0]],
      [[1, 0, 0], [0, 0, 0], [0, 0, 0]],
      [[0, 0, 0], [0, 0, 0], [0, 0, 0]],
      [[0, 0, 0], [0, 0, 0], [0, 0, 0]],
      [[0, 0, 0], [0, 0, 0], [0, 0, 0]],
      [[0, 0, 0], [0, 0, 0], [0, 0, 0]]]"

definition constant_stress_xx :: "mat list" where
  "constant_stress_xx =
     [[[1, 0, 0], [0, 0, 0], [0, 0, 0]],
      [[1, 0, 0], [0, 0, 0], [0, 0, 0]],
      [[1, 0, 0], [0, 0, 0], [0, 0, 0]],
      [[1, 0, 0], [0, 0, 0], [0, 0, 0]],
      [[1, 0, 0], [0, 0, 0], [0, 0, 0]],
      [[1, 0, 0], [0, 0, 0], [0, 0, 0]],
      [[1, 0, 0], [0, 0, 0], [0, 0, 0]]]"

text \<open>
  Pairs of strain tensors for the energy fit: every Voigt component strained;
  strained along x and y only; and strained along x and y with opposite signs of the
  y strain.
\<close>

definition full_strains :: "mat list" where
  "full_strains = [[[1, 1, 1], [1, 1, 1], [1, 1, 1]], [[2, 2, 2], [2, 2, 2], [2, 2, 2]]]"

definition biaxial_strains :: "mat list" where
  "biaxial_strains = [[[1, 0, 0], [0, 1, 0], [0, 0, 0]], [[2, 0, 0], [0, 2, 0], [0, 0, 0]]]"

definition cancelling_strains :: "mat list" where
  "cancelling_strains = [[[1, 0, 0], [0, 1, 0], [0, 0, 0]], [[1, 0, 0], [0, -1, 0], [0, 0, 0]]]"

text \<open>
  The least-squares fit with intercept on two samples, as the library computes it: the
  coefficient vector of least norm, which is a multiple of the difference \<open>d\<close> of the two
  rows, and the intercept that makes the means agree.
\<close>

definition fit_two_samples :: linear_regression where
  "fit_two_samples X y =
     (let d = map (\<lambda>(a, b). b - a) (zip (X ! 0) (X ! 1));
          s = (y ! 1 - y ! 0) / dot d d;
          c = map (\<lambda>x. x * s) d
      in \<lparr>coef = c,
          intercept = (y ! 0 + y ! 1) / 2 - (dot c (X ! 0) + dot c (X ! 1)) / 2,
          r2_score = 1\<rparr>)"

text \<open>
  The tensor the energy fit returns for \<open>full_strains\<close>, the volumes 2 and 2 and the
  energies 0 and 1242, before the multiplication by the unit-conversion constant.
\<close>

definition full_strain_tensor :: mat where
  "full_strain_tensor =
     [[3, 3 / 2, 3 / 2, 3, 3, 3],
      [3 / 2, 3, 3 / 2, 3, 3, 3],
      [3 / 2, 3 / 2, 3, 3, 3, 3],
      [3, 3, 3, 12, 6, 6],
      [3, 3, 3, 6, 12, 6],
      [3, 3, 3, 6, 6, 12]]"


section \<open>Properties\<close>

subsection \<open>The Voigt index map and the expansion (claim C3)\<close>

lemma voigt_index_values:
  "voigt_index 0 0 = 0" "voigt_index 1 1 = 1" "voigt_index 2 2 = 2"
  "voigt_index 1 2 = 3" "voigt_index 2 1 = 3" "voigt_index 0 2 = 4" "voigt_index 2 0 = 4"
  "voigt_index 0 1 = 5" "voigt_index 1 0 = 5"
  by (simp_all add: voigt_index_def)

lemma upt_0_3: "[0..<3] = [0, 1, 2]"
  by (simp add: upt_rec)

lemma voigt_index_less: "i < 3 \<Longrightarrow> j < 3 \<Longrightarrow> voigt_index i j < 6"
  by (auto simp: voigt_index_def)

lemma voigt_index_closed_form:
  "i < 3 \<Longrightarrow> j < 3 \<Longrightarrow> voigt_index i j = (if i = j then i else 6 - i - j)"
  by (auto simp: voigt_index_def)

lemma set_indices4: "set indices4 = {(i, j, k, l). i < 3 \<and> j < 3 \<and> k < 3 \<and> l < 3}"
  by (fastforce simp: indices4_def)

text \<open>The 81 assignments of the first loop nest, run on the array of zeros.\<close>

lemma voigt_to_full_unrolled:
  "voigt_to_full et =
     map (\<lambda>i. map (\<lambda>j. map (\<lambda>k. map (\<lambda>l. et ! voigt_index i j ! voigt_index k l)
       [0..<3]) [0..<3]) [0..<3]) [0..<3]"
  by (simp add: voigt_to_full_def indices4_def upt_0_3 zeros4_def numeral_3_eq_3 setitem4_def
        voigt_index_values)

lemma voigt_to_full_nth:
  "i < 3 \<Longrightarrow> j < 3 \<Longrightarrow> k < 3 \<Longrightarrow> l < 3 \<Longrightarrow>
   voigt_to_full et ! i ! j ! k ! l = et ! voigt_index i j ! voigt_index k l"
  by (simp add: voigt_to_full_unrolled)

text \<open>
  C3 (as amended). The expansion reads cell \<open>(m i j, m k l)\<close> of the 6 x 6 tensor, where
  the index map of the code is \<open>m i j = i\<close> on the diagonal and \<open>6 - i - j\<close> off it:
  diagonal pairs go to 0, 1, 2 and off-diagonal pairs to 3, 4, 5.
\<close>

theorem voigt_to_full_index_map:
  assumes "i < 3" "j < 3" "k < 3" "l < 3"
  shows "voigt_to_full et ! i ! j ! k ! l = et ! voigt_index i j ! voigt_index k l \<and>
         voigt_index i j = (if i = j then i else 6 - i - j) \<and>
         (if i = j then voigt_index i j \<in> {0, 1, 2} else voigt_index i j \<in> {3, 4, 5})"
proof -
  have "i = 0 \<or> i = 1 \<or> i = 2" "j = 0 \<or> j = 1 \<or> j = 2"
    using assms by linarith+
  then have "if i = j then voigt_index i j \<in> {0, 1, 2} else voigt_index i j \<in> {3, 4, 5}"
    by (auto simp: voigt_index_def)
  then show ?thesis
    using assms by (simp add: voigt_to_full_nth voigt_index_closed_form)
qed

theorem voigt_to_full_index_map_witness:
  "voigt_to_full sample_tensor ! 1 ! 2 ! 0 ! 0 = sample_tensor ! 3 ! 0 \<and>
   voigt_index 1 2 = 3 \<and> voigt_index 1 2 \<in> {3, 4, 5}"
  using voigt_to_full_index_map [of 1 2 0 0 sample_tensor]
  by (simp add: voigt_index_def)

text \<open>
  The map as the specification words it sends the off-diagonal pair \<open>(1, 2)\<close> to 2, the
  index of the diagonal pair \<open>(2, 2)\<close>, and the expansion does not read that cell.
\<close>

theorem voigt_to_full_spec_map_counterexample:
  "voigt_index_spec 1 2 = 2 \<and>
   voigt_to_full sample_tensor ! 1 ! 2 ! 0 ! 0 \<noteq>
     sample_tensor ! voigt_index_spec 1 2 ! voigt_index_spec 0 0"
  by (simp add: voigt_to_full_nth voigt_index_def voigt_index_spec_def sample_tensor_def)

subsection \<open>The round trip through the full tensor (claim C8)\<close>

lemma length_setitem2: "length (setitem2 A a b v) = length A"
  by (simp add: setitem2_def)

lemma length_row_setitem2: "length (setitem2 A a b v ! r) = length (A ! r)"
  by (cases "a < length A"; cases "r = a") (simp_all add: setitem2_def list_update_beyond)

lemma nth_setitem2:
  "a' < length A \<Longrightarrow> b' < length (A ! a') \<Longrightarrow>
   setitem2 A a' b' v ! a ! b = (if a = a' \<and> b = b' then v else A ! a ! b)"
  by (cases "a = a'"; cases "b = b'") (simp_all add: setitem2_def)

lemma fold_setitem2_length:
  "length (fold (\<lambda>p A. setitem2 A (ka p) (kb p) (w p)) ps A) = length A"
  by (induction ps arbitrary: A) (simp_all add: length_setitem2)

lemma fold_setitem2_row_length:
  "length (fold (\<lambda>p A. setitem2 A (ka p) (kb p) (w p)) ps A ! r) = length (A ! r)"
  by (induction ps arbitrary: A) (simp_all add: length_row_setitem2)

text \<open>
  A loop of assignments whose value depends only on the cell written: afterwards every
  written cell holds that value, whatever the order and the number of writes.
\<close>

lemma fold_setitem2_nth:
  assumes "\<forall>p\<in>set ps. ka p < length A \<and> kb p < length (A ! ka p) \<and> w p = g (ka p) (kb p)"
  shows "fold (\<lambda>p A. setitem2 A (ka p) (kb p) (w p)) ps A ! a ! b =
         (if (a, b) \<in> (\<lambda>p. (ka p, kb p)) ` set ps then g a b else A ! a ! b)"
  using assms
proof (induction ps arbitrary: A)
  case Nil
  then show ?case by simp
next
  case (Cons p ps)
  let ?A = "setitem2 A (ka p) (kb p) (w p)"
  have "\<forall>q\<in>set ps. ka q < length ?A \<and> kb q < length (?A ! ka q) \<and> w q = g (ka q) (kb q)"
    using Cons.prems by (simp add: length_setitem2 length_row_setitem2)
  from Cons.IH[OF this] show ?case
    using Cons.prems by (auto simp: nth_setitem2)
qed

lemma voigt_index_onto: "a < 6 \<Longrightarrow> \<exists>i j. i < 3 \<and> j < 3 \<and> voigt_index i j = a"
proof -
  assume "a < 6"
  then consider "a = 0" | "a = 1" | "a = 2" | "a = 3" | "a = 4" | "a = 5" by linarith
  then show ?thesis
  proof cases
    case 1 then show ?thesis using voigt_index_values(1) by (intro exI[of _ 0]) simp
  next
    case 2 then show ?thesis using voigt_index_values(2) by (intro exI[of _ 1]) simp
  next
    case 3 then show ?thesis using voigt_index_values(3) by (intro exI[of _ 2]) simp
  next
    case 4 then show ?thesis using voigt_index_values(4) by (intro exI[of _ 1] exI[of _ 2]) simp
  next
    case 5 then show ?thesis using voigt_index_values(6) by (intro exI[of _ 0] exI[of _ 2]) simp
  next
    case 6 then show ?thesis using voigt_index_values(8) by (intro exI[of _ 0] exI[of _ 1]) simp
  qed
qed

lemma is_6x6_length: "is_6x6 A \<Longrightarrow> length A = 6"
  by (simp add: is_6x6_def)

lemma is_6x6_row: "is_6x6 A \<Longrightarrow> a < 6 \<Longrightarrow> length (A ! a) = 6"
  by (simp add: is_6x6_def list_all_length)

lemma is_6x6_sample_tensor: "is_6x6 sample_tensor"
  by (simp add: is_6x6_def sample_tensor_def)

lemma full_to_voigt_fold:
  "full_to_voigt C et =
   fold (\<lambda>p A. setitem2 A (voigt_index (fst p) (fst (snd p)))
                  (voigt_index (fst (snd (snd p))) (snd (snd (snd p))))
                  (C ! fst p ! fst (snd p) ! fst (snd (snd p)) ! snd (snd (snd p))))
     indices4 (zeros_like et)"
  by (simp add: full_to_voigt_def case_prod_unfold)

lemma full_to_voigt_length: "length (full_to_voigt C et) = length et"
  by (simp add: full_to_voigt_fold fold_setitem2_length zeros_like_def)

lemma full_to_voigt_row_length:
  "r < length et \<Longrightarrow> length (full_to_voigt C et ! r) = length (et ! r)"
  by (simp add: full_to_voigt_fold fold_setitem2_row_length zeros_like_def)

text \<open>
  The contraction takes its values from the full tensor: the array it is given as
  template (\<^verbatim>\<open>np.zeros_like\<close> of it is the start of the loop) fixes the shape only.
\<close>

lemma roundtrip_nth:
  assumes "is_6x6 D" "a < 6" "b < 6"
  shows "full_to_voigt (voigt_to_full et) D ! a ! b = et ! a ! b"
proof -
  let ?ka = "\<lambda>p::nat \<times> nat \<times> nat \<times> nat. voigt_index (fst p) (fst (snd p))"
  let ?kb = "\<lambda>p::nat \<times> nat \<times> nat \<times> nat. voigt_index (fst (snd (snd p))) (snd (snd (snd p)))"
  let ?w = "\<lambda>p::nat \<times> nat \<times> nat \<times> nat.
      voigt_to_full et ! fst p ! fst (snd p) ! fst (snd (snd p)) ! snd (snd (snd p))"
  have shape0: "length (zeros_like D) = 6" "\<And>r. r < 6 \<Longrightarrow> length (zeros_like D ! r) = 6"
    using assms(1) by (simp_all add: zeros_like_def is_6x6_length is_6x6_row)
  have pre: "\<forall>p\<in>set indices4. ?ka p < length (zeros_like D) \<and>
      ?kb p < length (zeros_like D ! ?ka p) \<and> ?w p = (\<lambda>a b. et ! a ! b) (?ka p) (?kb p)"
    by (auto simp: set_indices4 shape0 voigt_index_less voigt_to_full_nth)
  obtain i j where ij: "i < 3" "j < 3" "voigt_index i j = a"
    using voigt_index_onto[OF assms(2)] by blast
  obtain k l where kl: "k < 3" "l < 3" "voigt_index k l = b"
    using voigt_index_onto[OF assms(3)] by blast
  have "(i, j, k, l) \<in> set indices4"
    using ij kl by (simp add: set_indices4)
  then have mem: "(a, b) \<in> (\<lambda>p. (?ka p, ?kb p)) ` set indices4"
    using ij(3) kl(3) by force
  show ?thesis
    unfolding full_to_voigt_fold
    using fold_setitem2_nth[OF pre, of a b] mem by simp
qed

lemma roundtrip_template:
  assumes "is_6x6 et" and "is_6x6 D"
  shows "full_to_voigt (voigt_to_full et) D = et"
proof (rule nth_equalityI)
  show "length (full_to_voigt (voigt_to_full et) D) = length et"
    using assms by (simp add: full_to_voigt_length is_6x6_length)
next
  fix a assume "a < length (full_to_voigt (voigt_to_full et) D)"
  then have a: "a < 6" using assms(2) by (simp add: full_to_voigt_length is_6x6_length)
  show "full_to_voigt (voigt_to_full et) D ! a = et ! a"
  proof (rule nth_equalityI)
    show "length (full_to_voigt (voigt_to_full et) D ! a) = length (et ! a)"
      using assms a by (simp add: full_to_voigt_row_length is_6x6_length is_6x6_row)
  next
    fix b assume "b < length (full_to_voigt (voigt_to_full et) D ! a)"
    then have "b < 6"
      using assms(2) a by (simp add: full_to_voigt_row_length is_6x6_row is_6x6_length)
    then show "full_to_voigt (voigt_to_full et) D ! a ! b = et ! a ! b"
      using roundtrip_nth[OF assms(2) a] by simp
  qed
qed

lemma roundtrip:
  assumes "is_6x6 et"
  shows "full_to_voigt (voigt_to_full et) et = et"
  using assms assms by (rule roundtrip_template)

lemma is_6x6_template_tensor: "is_6x6 template_tensor"
  by (simp add: is_6x6_def template_tensor_def)

text \<open>
  C8. Expanding a 6 x 6 tensor \<open>C\<close> with the first loop nest and contracting the result
  with the second gives \<open>C\<close> back, entry for entry, whatever 6 x 6 array \<open>D\<close> the
  contraction is given for the shape of its output: every entry of the output is read
  from the full tensor. In \<open>get_elastic_tensor_by_orientation\<close> the array \<open>D\<close> is the
  tensor itself. No arithmetic is done on the entries, and the symmetry of \<open>C\<close> is not
  needed.
\<close>

theorem voigt_roundtrip:
  "is_6x6 C \<Longrightarrow> is_6x6 D \<Longrightarrow> full_to_voigt (voigt_to_full C) D = C"
  by (rule roundtrip_template)

theorem voigt_roundtrip_witness:
  "is_6x6 sample_tensor \<and> is_6x6 template_tensor \<and>
   transpose sample_tensor = sample_tensor \<and> template_tensor \<noteq> sample_tensor \<and>
   full_to_voigt (voigt_to_full sample_tensor) template_tensor = sample_tensor \<and>
   full_to_voigt (voigt_to_full sample_tensor) sample_tensor = sample_tensor"
proof -
  have "transpose sample_tensor = sample_tensor"
    unfolding sample_tensor_def by code_simp
  moreover have "template_tensor \<noteq> sample_tensor"
    by (simp add: template_tensor_def sample_tensor_def)
  ultimately show ?thesis
    using voigt_roundtrip [of sample_tensor template_tensor]
      voigt_roundtrip [of sample_tensor sample_tensor]
    by (simp add: is_6x6_sample_tensor is_6x6_template_tensor)
qed

subsection \<open>The orientation [[1,0,0],[0,1,0],[0,0,2]] (claim C4)\<close>

lemma normalize_rows_0_0_2:
  "normalize_rows [[1, 0, 0], [0, 1, 0], [0, 0, 2]] = [[1, 0, 0], [0, 1, 0], [0, 0, 1]]"
  by (simp add: normalize_rows_def linalg_norm_def)

lemma det3_identity: "det3 [[1, 0, 0], [0, 1, 0], [0, 0, 1]] = 1"
  by (simp add: det3_def)

lemma einsum_rotate_identity:
  "einsum_rotate [[1, 0, 0], [0, 1, 0], [0, 0, 1]] (voigt_to_full et) = voigt_to_full et"
  by (simp add: voigt_to_full_unrolled einsum_rotate_def indices4_def upt_0_3)

lemma get_elastic_tensor_0_0_2:
  "is_6x6 C \<Longrightarrow>
   get_elastic_tensor_by_orientation [[1, 0, 0], [0, 1, 0], [0, 0, 2]] C = Inr C"
  by (simp add: get_elastic_tensor_by_orientation_def normalize_rows_0_0_2 det3_identity
        isclose_def einsum_rotate_identity roundtrip)

text \<open>
  C4 (as amended). The rows of \<open>[[1,0,0],[0,1,0],[0,0,2]]\<close> are orthogonal; line 41
  divides each by its length, which gives the identity matrix, whose determinant is 1.
  The test of line 42 passes, no error is raised, and the tensor comes back unchanged.
\<close>

theorem orientation_0_0_2_accepted:
  "is_6x6 C \<Longrightarrow>
   normalize_rows [[1, 0, 0], [0, 1, 0], [0, 0, 2]] = eye 3 \<and>
   det3 (normalize_rows [[1, 0, 0], [0, 1, 0], [0, 0, 2]]) = 1 \<and>
   get_elastic_tensor_by_orientation [[1, 0, 0], [0, 1, 0], [0, 0, 2]] C = Inr C"
  by (simp add: get_elastic_tensor_0_0_2 normalize_rows_0_0_2 det3_identity eye_def upt_0_3)

theorem orientation_0_0_2_accepted_witness:
  "is_6x6 sample_tensor \<and>
   get_elastic_tensor_by_orientation [[1, 0, 0], [0, 1, 0], [0, 0, 2]] sample_tensor =
     Inr sample_tensor"
  using orientation_0_0_2_accepted [of sample_tensor] by (simp add: is_6x6_sample_tensor)

theorem orientation_0_0_2_not_rejected:
  "get_elastic_tensor_by_orientation [[1, 0, 0], [0, 1, 0], [0, 0, 2]] sample_tensor \<noteq>
     Inl Orientation_not_orthogonal"
  by (simp add: get_elastic_tensor_0_0_2 is_6x6_sample_tensor)

text \<open>
  The test does reject an orientation whose rows are not orthogonal: the rows of
  \<open>[[1,0,0],[0,1,0],[0,3,4]]\<close> have the lengths 1, 1 and 5, and the determinant after
  the division is 4/5.
\<close>

lemma orientation_not_orthogonal_rejected:
  "get_elastic_tensor_by_orientation [[1, 0, 0], [0, 1, 0], [0, 3, 4]] C =
     Inl Orientation_not_orthogonal"
proof -
  have "sqrt 25 = 5"
    using real_sqrt_abs [of 5] by simp
  then have "normalize_rows [[1, 0, 0], [0, 1, 0], [0, 3, 4]] =
      [[1, 0, 0], [0, 1, 0], [0, 3 / 5, 4 / 5]]"
    by (simp add: normalize_rows_def linalg_norm_def)
  then show ?thesis
    by (simp add: get_elastic_tensor_by_orientation_def det3_def isclose_def)
qed

subsection \<open>The unit-conversion constant (claim C9)\<close>

text \<open>
  C9 (as amended). The constant is \<open>10^21\<close> divided by the number of electron volts in
  one joule. That number is the reciprocal of the elementary charge in coulombs, so the
  constant is \<open>10^21\<close> times the elementary charge, about 160.2; with scipy's rounded
  table entry it differs from that product by less than \<open>10^-6\<close>.
\<close>

theorem eV_div_A3_to_GPa_value:
  "eV_div_A3_to_GPa (1 / elementary_charge) = 10 ^ 21 * elementary_charge \<and>
   \<bar>eV_div_A3_to_GPa joule_electron_volt_relationship - 10 ^ 21 * elementary_charge\<bar>
     < 1 / 10 ^ 6 \<and>
   160 < eV_div_A3_to_GPa joule_electron_volt_relationship \<and>
   eV_div_A3_to_GPa joule_electron_volt_relationship < 161"
  by (simp add: eV_div_A3_to_GPa_def elementary_charge_def
        joule_electron_volt_relationship_def)

text \<open>
  \<open>10^21\<close> divided by the elementary charge is about \<open>6.24 * 10^39\<close>: it is not the
  constant, by 37 orders of magnitude.
\<close>

theorem eV_div_A3_to_GPa_not_over_charge:
  "eV_div_A3_to_GPa joule_electron_volt_relationship \<noteq> 10 ^ 21 / elementary_charge \<and>
   eV_div_A3_to_GPa (1 / elementary_charge) \<noteq> 10 ^ 21 / elementary_charge \<and>
   10 ^ 39 < 10 ^ 21 / elementary_charge"
  by (simp add: eV_div_A3_to_GPa_def elementary_charge_def
        joule_electron_volt_relationship_def)

subsection \<open>The reduction of the rotations (claims C2 and C10)\<close>

lemma index_of_less: "x \<in> set ys \<Longrightarrow> index_of x ys < length ys"
  by (induction ys) auto

lemma index_of_nth: "distinct ys \<Longrightarrow> i < length ys \<Longrightarrow> index_of (ys ! i) ys = i"
proof (induction ys arbitrary: i)
  case Nil
  then show ?case by simp
next
  case (Cons y ys)
  then show ?case by (cases i) auto
qed

lemma set_np_unique: "set (np_unique xs) = set xs"
  by (simp add: np_unique_def)

lemma distinct_np_unique: "distinct (np_unique xs)"
  by (simp add: np_unique_def)

lemma length_np_unique: "length (np_unique xs) = card (set xs)"
  by (simp add: np_unique_def length_remdups_card_conv)

text \<open>
  The inverse indices take every value below the number of distinct elements: each
  distinct element is the image of some element of the input.
\<close>

lemma set_np_unique_inverse: "set (np_unique_inverse xs) = {0..<card (set xs)}"
proof (intro equalityI subsetI)
  fix i assume "i \<in> set (np_unique_inverse xs)"
  then obtain x where "x \<in> set xs" "i = index_of x (np_unique xs)"
    by (auto simp: np_unique_inverse_def)
  then show "i \<in> {0..<card (set xs)}"
    using index_of_less[of x "np_unique xs"] by (simp add: set_np_unique length_np_unique)
next
  fix i assume "i \<in> {0..<card (set xs)}"
  then have i: "i < length (np_unique xs)" by (simp add: length_np_unique)
  then have "np_unique xs ! i \<in> set xs"
    using nth_mem[OF i] by (simp add: set_np_unique)
  moreover have "index_of (np_unique xs ! i) (np_unique xs) = i"
    using index_of_nth[OF distinct_np_unique i] .
  ultimately show "i \<in> set (np_unique_inverse xs)"
    by (force simp: np_unique_inverse_def)
qed

text \<open>So \<^verbatim>\<open>np.unique(indices)\<close> is \<open>0, 1, ..., k - 1\<close>, whatever the input.\<close>

lemma np_unique_of_inverse: "np_unique (np_unique_inverse xs) = [0..<card (set xs)]"
proof -
  have "np_unique (np_unique_inverse xs) = sorted_list_of_set (set (np_unique_inverse xs))"
    by (simp add: np_unique_def sorted_list_of_set_sort_remdups)
  then show ?thesis by (simp add: set_np_unique_inverse)
qed

lemma map_nth_upt_take: "k \<le> length xs \<Longrightarrow> map (\<lambda>i. xs ! i) [0..<k] = take k xs"
  by (rule nth_equalityI) simp_all

text \<open>
  Lines 104-105 keep the first \<open>k\<close> matrices of the list, where \<open>k\<close> is the number
  of matrices that are distinct after rounding: not one representative of each.
\<close>

lemma unique_rotations_take:
  "unique_rotations rotations = take (card (set (map rounded_key rotations))) rotations"
proof -
  have "card (set (map rounded_key rotations)) \<le> length rotations"
    using card_length[of "map rounded_key rotations"] by simp
  then show ?thesis
    by (simp add: unique_rotations_def np_unique_of_inverse map_nth_upt_take)
qed

lemma unique_rotations_remdups:
  "unique_rotations rotations = take (length (remdups (map rounded_key rotations))) rotations"
  unfolding unique_rotations_take List.card_set ..

lemma eye_3: "eye 3 = [[1, 0, 0], [0, 1, 0], [0, 0, 1]]"
  by (simp add: eye_def upt_rec)

lemma rounded_key_samples:
  "rounded_key (eye 3) = [1, 0, 0, 0, 1, 0, 0, 0, 1]"
  "rounded_key eye3_perturbed = [1, 0, 0, 0, 1, 0, 0, 0, 1]"
  "rounded_key rot90_z = [0, -1, 0, 1, 0, 0, 0, 0, 1]"
  by (simp_all add: rounded_key_def eye_3 eye3_perturbed_def rot90_z_def np_round_def
        rint_def Let_def)

text \<open>
  C2, the code at the input of the claim: the identity, an identity perturbed by less
  than \<open>10^-7\<close>, and the rotation by 90 degrees. With the identity prepended the list
  has four matrices and two distinct rounded ones, so its first two are kept: the
  identity twice. The rotation by 90 degrees is lost.
\<close>

theorem reduce_rotations_loses_rotation:
  "used_rotations (Some [eye 3, eye3_perturbed, rot90_z]) = [eye 3, eye 3] \<and>
   rot90_z \<notin> set (used_rotations (Some [eye 3, eye3_perturbed, rot90_z]))"
  by (simp add: used_rotations_def unique_rotations_remdups rounded_key_samples)
    (simp add: eye_3 rot90_z_def)

text \<open>With the rotation first in the supplied list the same code keeps both.\<close>

lemma reduce_rotations_rotation_first:
  "used_rotations (Some [rot90_z, eye 3, eye3_perturbed]) = [eye 3, rot90_z]"
  by (simp add: used_rotations_def unique_rotations_remdups rounded_key_samples)

text \<open>
  C10. When a list of rotations is supplied, the sequence used for the augmentation
  starts with the identity matrix as \<^verbatim>\<open>np.eye(3)\<close> builds it, and has as many elements
  as the list with the identity prepended has distinct matrices after rounding to 6
  decimals.
\<close>

theorem used_rotations_identity_first:
  "used_rotations (Some rs) \<noteq> [] \<and>
   hd (used_rotations (Some rs)) = eye 3 \<and>
   length (used_rotations (Some rs)) = card (set (map rounded_key (eye 3 # rs)))"
proof -
  let ?k = "card (set (map rounded_key (eye 3 # rs)))"
  have "0 < ?k"
    by (simp add: card_gt_0_iff)
  moreover have "?k \<le> length (eye 3 # rs)"
    using card_length[of "map rounded_key (eye 3 # rs)"] by simp
  moreover have "used_rotations (Some rs) = take ?k (eye 3 # rs)"
    by (simp add: used_rotations_def unique_rotations_take)
  ultimately show ?thesis
    by (cases ?k) simp_all
qed

subsection \<open>The paths of calc_elastic_tensor\<close>

lemma used_rotations_None: "used_rotations None = [eye 3]"
  by (simp add: used_rotations_def)

lemma used_rotations_nonempty: "used_rotations rotations \<noteq> []"
proof (cases rotations)
  case None
  then show ?thesis by (simp add: used_rotations_def)
next
  case (Some rs)
  have "0 < card (set (map rounded_key (eye 3 # rs)))"
    by (simp add: card_gt_0_iff)
  then show ?thesis
    using Some by (simp add: used_rotations_def unique_rotations_take)
qed

lemma length_einsum_rotations:
  "length (einsum_rotations rotations xs) = length rotations * length xs"
  by (induction rotations) (simp_all add: einsum_rotations_def)

lemma length_augmented_strain:
  "length (augmented_strain rotations strain) = length rotations * length strain"
  by (simp add: augmented_strain_def length_einsum_rotations)

lemma length_stress_component:
  "length (stress_component stress rotations ii) = length rotations * length stress"
  by (simp add: stress_component_def length_einsum_rotations)

text \<open>
  The rotation sequence is never empty, so the two length tests of lines 110 and 112
  compare the response with the strain list as supplied.
\<close>

lemma stress_usable_iff:
  "stress_usable stress (used_rotations rotations)
     (augmented_strain (used_rotations rotations) strain) \<longleftrightarrow>
   (\<exists>s. stress = Some s \<and> length s = length strain)"
  using used_rotations_nonempty[of rotations]
  by (cases stress) (auto simp: stress_usable_def length_augmented_strain mult.commute)

lemma energy_usable_iff:
  "energy_usable energy volume (used_rotations rotations)
     (augmented_strain (used_rotations rotations) strain) \<longleftrightarrow>
   (\<exists>e v. energy = Some e \<and> volume = Some v \<and> length e = length strain \<and>
          length e = length v)"
  using used_rotations_nonempty[of rotations]
  by (cases energy; cases volume)
    (auto simp: energy_usable_def length_augmented_strain mult.commute)

lemma fit_coeffs_with_energies_error:
  "fit_coeffs_with_energies fit jev strain energy volume rotations = Inl e \<Longrightarrow>
   e = Operands_not_broadcast"
  by (auto simp: fit_coeffs_with_energies_def imul_nonzero_def Let_def
      split: sum.splits if_splits)

text \<open>The first error is raised for the empty strain list and for nothing else.\<close>

lemma calc_not_enough_points_iff:
  "calc_elastic_tensor fit jev strain stress energy volume rotations rs =
     Inl Not_enough_points \<longleftrightarrow> strain = []"
  by (auto simp: calc_elastic_tensor_def Let_def split: sum.splits prod.splits if_splits
      dest: fit_coeffs_with_energies_error)

text \<open>
  For a strain list that is not empty, the second error is raised exactly when neither
  the stress nor the energy with the volume has the length of the strain list.
\<close>

lemma calc_mismatch_iff:
  assumes "strain \<noteq> []"
  shows "calc_elastic_tensor fit jev strain stress energy volume rotations rs =
           Inl Provide_stress_or_energy_volume \<longleftrightarrow>
         \<not> (\<exists>s. stress = Some s \<and> length s = length strain) \<and>
         \<not> (\<exists>e v. energy = Some e \<and> volume = Some v \<and> length e = length strain \<and>
                  length e = length v)"
  unfolding stress_usable_iff[symmetric, of stress _ rotations]
    energy_usable_iff[symmetric, of energy volume _ rotations]
  using assms
  by (auto simp: calc_elastic_tensor_def Let_def split: sum.splits prod.splits if_splits
      dest: fit_coeffs_with_energies_error)

lemma calc_empty_strain:
  "calc_elastic_tensor fit jev [] stress energy volume rotations rs = Inl Not_enough_points"
  by (simp add: calc_not_enough_points_iff)

lemma calc_two_strains_one_stress:
  "calc_elastic_tensor fit jev [s1, s2] (Some [t1]) None volume rotations rs =
     Inl Provide_stress_or_energy_volume"
  by (simp add: calc_mismatch_iff)

text \<open>The stress path returns, whatever the data: row \<open>ii\<close> is the \<open>coef\<close> of fit \<open>ii\<close>.\<close>

lemma calc_stress_path:
  assumes "strain \<noteq> []" "length stress = length strain"
  shows "calc_elastic_tensor fit jev strain (Some stress) energy volume rotations rs =
     Inr (map (\<lambda>ii. coef (fit (augmented_strain (used_rotations rotations) strain)
                          (stress_component stress (used_rotations rotations) ii))) [0..<6],
          if rs then Some (Scores (map (\<lambda>ii. r2_score
                 (fit (augmented_strain (used_rotations rotations) strain)
                    (stress_component stress (used_rotations rotations) ii))) [0..<6]))
          else None)"
proof -
  have "stress_usable (Some stress) (used_rotations rotations)
     (augmented_strain (used_rotations rotations) strain)"
    using assms(2) by (simp add: stress_usable_iff)
  then show ?thesis
    using assms(1) by (simp add: calc_elastic_tensor_def Let_def fit_coeffs_with_stress_def)
qed

subsection \<open>Least squares on the sample inputs\<close>

lemma upt_0_6: "[0..<6] = [0, 1, 2, 3, 4, 5]"
  by (simp add: upt_rec)

lemma upt_0_7: "[0..<7] = [0, 1, 2, 3, 4, 5, 6]"
  by (simp add: upt_rec)

lemma length_6_list: "length xs = 6 \<Longrightarrow> \<exists>a b c d e f. xs = [a, b, c, d, e, f]"
  by (auto simp: numeral_eq_Suc length_Suc_conv)

lemma length_7_list: "length xs = 7 \<Longrightarrow> \<exists>a b c d e f g. xs = [a, b, c, d, e, f, g]"
  by (auto simp: numeral_eq_Suc length_Suc_conv)

lemma rss_nonneg: "0 \<le> rss X y b c"
  unfolding rss_def by (rule sum_list_nonneg) auto

lemma rss_zero_least_squares:
  "rss X y b c = 0 \<Longrightarrow> length c = ncols X \<Longrightarrow> least_squares_with_intercept X y b c"
  by (simp add: least_squares_with_intercept_def rss_nonneg)

lemma rotate3_identity:
  "rotate3 [[1, 0, 0], [0, 1, 0], [0, 0, 1]] [[a, b, c], [d, e, f], [g, h, i]] =
     [[a, b, c], [d, e, f], [g, h, i]]"
  by (simp add: rotate3_def upt_0_3)

lemma augmented_unit_strains: "augmented_strain [eye 3] unit_strains = unit_design"
  by (simp add: augmented_strain_def einsum_rotations_def eye_3 unit_strains_def
      rotate3_identity voigt_strain_def unit_design_def)

lemma rss_unit_design:
  "rss unit_design [y0, y1, y2, y3, y4, y5, y6] b [c0, c1, c2, c3, c4, c5] =
     (y0 - b)\<^sup>2 + (y1 - (b + c0))\<^sup>2 + (y2 - (b + c1))\<^sup>2 + (y3 - (b + c2))\<^sup>2 +
     (y4 - (b + c3))\<^sup>2 + (y5 - (b + c4))\<^sup>2 + (y6 - (b + c5))\<^sup>2"
  by (simp add: rss_def unit_design_def upt_0_7 dot_def)

lemma rss_fit_unit_design:
  assumes "length y = 7"
  shows "rss unit_design y (intercept (fit_unit_design unit_design y))
           (coef (fit_unit_design unit_design y)) = 0"
proof -
  obtain y0 y1 y2 y3 y4 y5 y6 where y: "y = [y0, y1, y2, y3, y4, y5, y6]"
    using length_7_list[OF assms] by blast
  show ?thesis
    unfolding y by (simp add: fit_unit_design_def upt_0_6 rss_unit_design)
qed

text \<open>On the seven samples \<open>fit_unit_design\<close> is a least-squares fit with intercept.\<close>

lemma fit_unit_design_least_squares:
  assumes "length y = 7"
  shows "least_squares_with_intercept unit_design y
           (intercept (fit_unit_design unit_design y)) (coef (fit_unit_design unit_design y))"
proof -
  have "length (coef (fit_unit_design unit_design y)) = ncols unit_design"
    by (simp add: fit_unit_design_def ncols_def unit_design_def)
  with rss_fit_unit_design[OF assms] show ?thesis
    by (rule rss_zero_least_squares)
qed

text \<open>
  And it is the only one: whatever least-squares solver stands for the library on these
  samples returns this intercept and these coefficients.
\<close>

lemma unit_design_least_squares_unique:
  assumes "length y = 7" "least_squares_with_intercept unit_design y b c"
  shows "b = intercept (fit_unit_design unit_design y) \<and>
         c = coef (fit_unit_design unit_design y)"
proof -
  obtain y0 y1 y2 y3 y4 y5 y6 where y: "y = [y0, y1, y2, y3, y4, y5, y6]"
    using length_7_list[OF assms(1)] by blast
  have "length c = 6"
    using assms(2) by (simp add: least_squares_with_intercept_def ncols_def unit_design_def)
  then obtain c0 c1 c2 c3 c4 c5 where c: "c = [c0, c1, c2, c3, c4, c5]"
    using length_6_list by blast
  let ?r = "fit_unit_design unit_design y"
  have "rss unit_design y b c \<le> rss unit_design y (intercept ?r) (coef ?r)"
    using assms(2)
    by (simp add: least_squares_with_intercept_def fit_unit_design_def ncols_def
        unit_design_def)
  then have "rss unit_design y b c = 0"
    using rss_nonneg[of unit_design y b c] rss_fit_unit_design[OF assms(1)] by linarith
  then have "(y0 - b)\<^sup>2 + (y1 - (b + c0))\<^sup>2 + (y2 - (b + c1))\<^sup>2 + (y3 - (b + c2))\<^sup>2 +
     (y4 - (b + c3))\<^sup>2 + (y5 - (b + c4))\<^sup>2 + (y6 - (b + c5))\<^sup>2 = 0"
    unfolding y c by (simp add: rss_unit_design)
  then have "y0 - b = 0 \<and> y1 - (b + c0) = 0 \<and> y2 - (b + c1) = 0 \<and> y3 - (b + c2) = 0 \<and>
     y4 - (b + c3) = 0 \<and> y5 - (b + c4) = 0 \<and> y6 - (b + c5) = 0"
    by (simp add: add_nonneg_eq_0_iff)
  then show ?thesis
    unfolding y c by (simp add: fit_unit_design_def upt_0_6)
qed

lemma length_sample_inputs:
  "length unit_strains = 7" "length stress_xx_from_eyy = 7" "length constant_stress_xx = 7"
  "length full_strains = 2" "length biaxial_strains = 2"
  by (simp_all add: unit_strains_def stress_xx_from_eyy_def constant_stress_xx_def
      full_strains_def biaxial_strains_def)

lemma stress_components_xx_from_eyy:
  "stress_component stress_xx_from_eyy [eye 3] 0 = [0, 0, 1, 0, 0, 0, 0]"
  "stress_component stress_xx_from_eyy [eye 3] 1 = [0, 0, 0, 0, 0, 0, 0]"
  by (simp_all add: stress_component_def einsum_rotations_def eye_3 stress_xx_from_eyy_def
      rotate3_identity voigt_stress_def)

lemma stress_component_constant_xx:
  "stress_component constant_stress_xx [eye 3] 0 = [1, 1, 1, 1, 1, 1, 1]"
  by (simp add: stress_component_def einsum_rotations_def eye_3 constant_stress_xx_def
      rotate3_identity voigt_stress_def)

text \<open>
  The hypothesis of the stress fit on the sample inputs: each of the six fits is a
  least-squares fit with intercept.
\<close>

lemma fit_unit_design_on_samples:
  assumes "length stress = 7"
  shows "\<forall>ii<6. least_squares_with_intercept
           (augmented_strain (used_rotations None) unit_strains)
           (stress_component stress (used_rotations None) ii)
           (intercept (fit_unit_design (augmented_strain (used_rotations None) unit_strains)
              (stress_component stress (used_rotations None) ii)))
           (coef (fit_unit_design (augmented_strain (used_rotations None) unit_strains)
              (stress_component stress (used_rotations None) ii)))"
  using assms
  by (simp add: used_rotations_None augmented_unit_strains fit_unit_design_least_squares
      length_stress_component)

subsection \<open>The stress-based fit (claims C1 and C5)\<close>

text \<open>
  C5 (as amended). When the stress has the length of the strain list the call returns
  a tensor with six rows, and row \<open>ii\<close> is the coefficient vector of the fit of stress
  component \<open>ii\<close> against the rotated Voigt strains. The fit is
  \<^verbatim>\<open>LinearRegression()\<close> with its default \<^verbatim>\<open>fit_intercept=True\<close>: where the library
  returns a least-squares solution with intercept, row \<open>ii\<close> is the coefficient part of
  that solution.
\<close>

theorem stress_fit_rows_with_intercept:
  assumes "strain \<noteq> []" and "length stress = length strain"
    and "\<forall>ii<6. least_squares_with_intercept
           (augmented_strain (used_rotations rotations) strain)
           (stress_component stress (used_rotations rotations) ii)
           (intercept (fit (augmented_strain (used_rotations rotations) strain)
              (stress_component stress (used_rotations rotations) ii)))
           (coef (fit (augmented_strain (used_rotations rotations) strain)
              (stress_component stress (used_rotations rotations) ii)))"
  shows "\<exists>T sc. calc_elastic_tensor fit jev strain (Some stress) energy volume rotations rs =
           Inr (T, sc) \<and> length T = 6 \<and>
         (\<forall>ii<6.
            T ! ii = coef (fit (augmented_strain (used_rotations rotations) strain)
              (stress_component stress (used_rotations rotations) ii)) \<and>
            least_squares_with_intercept
              (augmented_strain (used_rotations rotations) strain)
              (stress_component stress (used_rotations rotations) ii)
              (intercept (fit (augmented_strain (used_rotations rotations) strain)
                 (stress_component stress (used_rotations rotations) ii)))
              (T ! ii))"
proof -
  let ?X = "augmented_strain (used_rotations rotations) strain"
  let ?y = "stress_component stress (used_rotations rotations)"
  let ?T = "map (\<lambda>ii. coef (fit ?X (?y ii))) [0..<6]"
  have "length ?T = 6" by simp
  moreover have "\<forall>ii<6. ?T ! ii = coef (fit ?X (?y ii)) \<and>
      least_squares_with_intercept ?X (?y ii) (intercept (fit ?X (?y ii))) (?T ! ii)"
    using assms(3) by simp
  ultimately show ?thesis
    unfolding calc_stress_path[OF assms(1,2)] by blast
qed

lemma calc_constant_stress_xx:
  "calc_elastic_tensor fit_unit_design joule_electron_volt_relationship unit_strains
     (Some constant_stress_xx) None None None False =
   Inr ([[0, 0, 0, 0, 0, 0], [0, 0, 0, 0, 0, 0], [0, 0, 0, 0, 0, 0],
         [0, 0, 0, 0, 0, 0], [0, 0, 0, 0, 0, 0], [0, 0, 0, 0, 0, 0]], None)"
  by code_simp

theorem stress_fit_rows_with_intercept_witness:
  "unit_strains \<noteq> [] \<and> length constant_stress_xx = length unit_strains \<and>
   calc_elastic_tensor fit_unit_design joule_electron_volt_relationship unit_strains
     (Some constant_stress_xx) None None None False =
   Inr ([[0, 0, 0, 0, 0, 0], [0, 0, 0, 0, 0, 0], [0, 0, 0, 0, 0, 0],
         [0, 0, 0, 0, 0, 0], [0, 0, 0, 0, 0, 0], [0, 0, 0, 0, 0, 0]], None) \<and>
   least_squares_with_intercept (augmented_strain [eye 3] unit_strains)
     [1, 1, 1, 1, 1, 1, 1] 1 [0, 0, 0, 0, 0, 0]"
proof -
  have ne: "unit_strains \<noteq> []" and len: "length constant_stress_xx = length unit_strains"
    using length_sample_inputs by auto
  have fits: "\<forall>ii<6. least_squares_with_intercept
           (augmented_strain (used_rotations None) unit_strains)
           (stress_component constant_stress_xx (used_rotations None) ii)
           (intercept (fit_unit_design (augmented_strain (used_rotations None) unit_strains)
              (stress_component constant_stress_xx (used_rotations None) ii)))
           (coef (fit_unit_design (augmented_strain (used_rotations None) unit_strains)
              (stress_component constant_stress_xx (used_rotations None) ii)))"
    by (rule fit_unit_design_on_samples) (simp add: length_sample_inputs)
  obtain T sc where T: "calc_elastic_tensor fit_unit_design joule_electron_volt_relationship
        unit_strains (Some constant_stress_xx) None None None False = Inr (T, sc)"
    and rows: "\<forall>ii<6.
        T ! ii = coef (fit_unit_design (augmented_strain (used_rotations None) unit_strains)
           (stress_component constant_stress_xx (used_rotations None) ii)) \<and>
        least_squares_with_intercept
          (augmented_strain (used_rotations None) unit_strains)
          (stress_component constant_stress_xx (used_rotations None) ii)
          (intercept (fit_unit_design (augmented_strain (used_rotations None) unit_strains)
             (stress_component constant_stress_xx (used_rotations None) ii)))
          (T ! ii)"
    using stress_fit_rows_with_intercept
      [where strain = unit_strains and stress = constant_stress_xx and rotations = None
        and fit = fit_unit_design and jev = joule_electron_volt_relationship
        and energy = None and volume = None and rs = False, OF ne len fits]
    by blast
  from rows have row: "least_squares_with_intercept
        (augmented_strain (used_rotations None) unit_strains)
        (stress_component constant_stress_xx (used_rotations None) 0)
        (intercept (fit_unit_design (augmented_strain (used_rotations None) unit_strains)
           (stress_component constant_stress_xx (used_rotations None) 0)))
        (T ! 0)"
    by (metis zero_less_numeral)
  from T have "T ! 0 = [0, 0, 0, 0, 0, 0]"
    by (auto simp: calc_constant_stress_xx)
  with row have "least_squares_with_intercept (augmented_strain [eye 3] unit_strains)
     [1, 1, 1, 1, 1, 1, 1] 1 [0, 0, 0, 0, 0, 0]"
    by (simp add: used_rotations_None stress_component_constant_xx fit_unit_design_def)
  then show ?thesis
    using ne len by (simp add: calc_constant_stress_xx)
qed

text \<open>
  A cell under a constant stress \<open>\<sigma>\<^sub>x\<^sub>x = 1\<close>, measured at the seven sample strains. The
  fit with intercept explains the stress by the intercept: row 0 of the tensor is zero.
  It is not a least-squares solution without intercept: the coefficients
  \<open>[1, 1, 1, 1, 1, 1]\<close> leave a smaller residual sum of squares when no intercept is
  allowed, 1 instead of 7.
\<close>

theorem stress_fit_row_not_without_intercept:
  "calc_elastic_tensor fit_unit_design joule_electron_volt_relationship unit_strains
     (Some constant_stress_xx) None None None False =
   Inr ([[0, 0, 0, 0, 0, 0], [0, 0, 0, 0, 0, 0], [0, 0, 0, 0, 0, 0],
         [0, 0, 0, 0, 0, 0], [0, 0, 0, 0, 0, 0], [0, 0, 0, 0, 0, 0]], None) \<and>
   least_squares_with_intercept (augmented_strain [eye 3] unit_strains)
     (stress_component constant_stress_xx [eye 3] 0)
     (intercept (fit_unit_design (augmented_strain [eye 3] unit_strains)
        (stress_component constant_stress_xx [eye 3] 0)))
     (coef (fit_unit_design (augmented_strain [eye 3] unit_strains)
        (stress_component constant_stress_xx [eye 3] 0))) \<and>
   \<not> least_squares_without_intercept (augmented_strain [eye 3] unit_strains)
       (stress_component constant_stress_xx [eye 3] 0) [0, 0, 0, 0, 0, 0]"
proof -
  have "rss unit_design [1, 1, 1, 1, 1, 1, 1] 0 [0, 0, 0, 0, 0, 0] = 7"
    "rss unit_design [1, 1, 1, 1, 1, 1, 1] 0 [1, 1, 1, 1, 1, 1] = 1"
    by (simp_all add: rss_unit_design)
  then have "\<not> least_squares_without_intercept unit_design [1, 1, 1, 1, 1, 1, 1]
      [0, 0, 0, 0, 0, 0]"
    by (auto simp: least_squares_without_intercept_def ncols_def unit_design_def
        intro!: exI[of _ "[1, 1, 1, 1, 1, 1]"])
  moreover have "least_squares_with_intercept unit_design [1, 1, 1, 1, 1, 1, 1]
     (intercept (fit_unit_design unit_design [1, 1, 1, 1, 1, 1, 1]))
     (coef (fit_unit_design unit_design [1, 1, 1, 1, 1, 1, 1]))"
    by (rule fit_unit_design_least_squares) simp
  ultimately show ?thesis
    by (simp add: calc_constant_stress_xx augmented_unit_strains stress_component_constant_xx)
qed

text \<open>
  C1, the stress path: a stress \<open>\<sigma>\<^sub>x\<^sub>x\<close> that responds to the strain along y, and no
  stress \<open>\<sigma>\<^sub>y\<^sub>y\<close> that responds to the strain along x. The six fits are exact, each row
  is returned as fitted, and the tensor has \<open>C\<^sub>0\<^sub>1 = 1\<close> and \<open>C\<^sub>1\<^sub>0 = 0\<close>.
\<close>

lemma calc_stress_xx_from_eyy:
  "calc_elastic_tensor fit_unit_design joule_electron_volt_relationship unit_strains
     (Some stress_xx_from_eyy) None None None False =
   Inr ([[0, 1, 0, 0, 0, 0], [0, 0, 0, 0, 0, 0], [0, 0, 0, 0, 0, 0],
         [0, 0, 0, 0, 0, 0], [0, 0, 0, 0, 0, 0], [0, 0, 0, 0, 0, 0]], None)"
  by code_simp

theorem stress_fit_tensor_not_symmetric:
  "calc_elastic_tensor fit_unit_design joule_electron_volt_relationship unit_strains
     (Some stress_xx_from_eyy) None None None False =
   Inr ([[0, 1, 0, 0, 0, 0], [0, 0, 0, 0, 0, 0], [0, 0, 0, 0, 0, 0],
         [0, 0, 0, 0, 0, 0], [0, 0, 0, 0, 0, 0], [0, 0, 0, 0, 0, 0]], None) \<and>
   [[0, 1, 0, 0, 0, 0], [0, 0, 0, 0, 0, 0], [0, 0, 0, 0, 0, 0],
    [0, 0, 0, 0, 0, 0], [0, 0, 0, 0, 0, 0], [0, 0, 0, 0, 0, 0 :: real]] ! 0 ! 1 \<noteq>
   [[0, 1, 0, 0, 0, 0], [0, 0, 0, 0, 0, 0], [0, 0, 0, 0, 0, 0],
    [0, 0, 0, 0, 0, 0], [0, 0, 0, 0, 0, 0], [0, 0, 0, 0, 0, 0 :: real]] ! 1 ! 0 \<and>
   list_all (\<lambda>ii. least_squares_with_intercept (augmented_strain [eye 3] unit_strains)
       (stress_component stress_xx_from_eyy [eye 3] ii)
       (intercept (fit_unit_design (augmented_strain [eye 3] unit_strains)
          (stress_component stress_xx_from_eyy [eye 3] ii)))
       (coef (fit_unit_design (augmented_strain [eye 3] unit_strains)
          (stress_component stress_xx_from_eyy [eye 3] ii)))) [0..<6]"
proof -
  have "list_all (\<lambda>ii. least_squares_with_intercept unit_design
       (stress_component stress_xx_from_eyy [eye 3] ii)
       (intercept (fit_unit_design unit_design
          (stress_component stress_xx_from_eyy [eye 3] ii)))
       (coef (fit_unit_design unit_design
          (stress_component stress_xx_from_eyy [eye 3] ii)))) [0..<6]"
    unfolding list_all_iff
    by (auto intro!: fit_unit_design_least_squares
        simp: length_stress_component length_sample_inputs)
  then show ?thesis
    by (simp add: calc_stress_xx_from_eyy augmented_unit_strains)
qed


subsection \<open>The energy-based fit (claims C1, C6 and C7)\<close>

lemma symmetrize_nth:
  "i < 6 \<Longrightarrow> j < 6 \<Longrightarrow> symmetrize M ! i ! j = 0.5 * (M ! i ! j + M ! j ! i)"
  by (simp add: symmetrize_def)

lemma symmetrize_symmetric:
  "i < 6 \<Longrightarrow> j < 6 \<Longrightarrow> symmetrize M ! i ! j = symmetrize M ! j ! i"
  by (simp add: symmetrize_nth add.commute)

lemma fit_coeffs_with_energies_symmetric:
  assumes "fit_coeffs_with_energies fit jev strain energy volume rotations = Inr (T, sc)"
    and "i < 6" "j < 6"
  shows "T ! i ! j = T ! j ! i"
  using assms
  by (auto simp: fit_coeffs_with_energies_def Let_def symmetrize_symmetric split: sum.splits)

text \<open>
  C1 (as amended). A call that returns a tensor from the energy path (the stress is
  missing, or its length is not that of the strain list) returns a symmetric one: line
  82 builds it as \<^verbatim>\<open>0.5*(coeff+coeff.T)\<close>. The stress path returns the coefficient rows
  of six separate regressions as they are.
\<close>

theorem energy_fit_tensor_symmetric:
  assumes "calc_elastic_tensor fit jev strain stress energy volume rotations rs = Inr (T, sc)"
    and "\<not> (\<exists>s. stress = Some s \<and> length s = length strain)"
    and "i < 6" and "j < 6"
  shows "T ! i ! j = T ! j ! i"
proof -
  have "\<not> stress_usable stress (used_rotations rotations)
     (augmented_strain (used_rotations rotations) strain)"
    using assms(2) by (simp add: stress_usable_iff)
  with assms(1) obtain s where "fit_coeffs_with_energies fit jev
      (augmented_strain (used_rotations rotations) strain) (the energy) (the volume)
      (used_rotations rotations) = Inr (T, s)"
    by (auto simp: calc_elastic_tensor_def Let_def split: sum.splits prod.splits if_splits)
  then show ?thesis
    using assms(3,4) by (rule fit_coeffs_with_energies_symmetric)
qed

text \<open>
  Two samples strained in every component, with the energies 0 and 1242 and the
  volumes 2 and 2: all 21 columns of the design are kept, the fit on two samples is
  exact, and the tensor is \<open>full_strain_tensor\<close> times the unit-conversion constant.
\<close>

lemma augmented_full_strains:
  "augmented_strain [eye 3] full_strains = [[1, 1, 1, 2, 2, 2], [2, 2, 2, 4, 4, 4]]"
  by (simp add: augmented_strain_def einsum_rotations_def eye_3 full_strains_def
      rotate3_identity voigt_strain_def)

lemma energy_design_full:
  "energy_design [2, 2] [[1, 1, 1, 2, 2, 2], [2, 2, 2, 4, 4, 4]] =
     [[1, 1, 1, 1, 2, 2, 2, 1, 1, 2, 2, 2, 1, 2, 2, 2, 4, 4, 4, 4, 4, 4],
      [1, 4, 4, 4, 8, 8, 8, 4, 4, 8, 8, 8, 4, 8, 8, 8, 16, 16, 16, 16, 16, 16]]"
  by code_simp

lemma fit_two_samples_full:
  "fit_two_samples
     [[1, 1, 1, 1, 2, 2, 2, 1, 1, 2, 2, 2, 1, 2, 2, 2, 4, 4, 4, 4, 4, 4],
      [1, 4, 4, 4, 8, 8, 8, 4, 4, 8, 8, 8, 4, 8, 8, 8, 16, 16, 16, 16, 16, 16]] [0, 1242] =
   \<lparr>coef = [0, 3, 3, 3, 6, 6, 6, 3, 3, 6, 6, 6, 3, 6, 6, 6, 12, 12, 12, 12, 12, 12],
    intercept = -414, r2_score = 1\<rparr>"
  by code_simp

text \<open>
  Line 80 with 21 coefficients, and with one: the 21 cells of the upper triangle take
  the coefficients in row-major order, or all of them the single coefficient.
\<close>

lemma imul_nonzero_triu_ones:
  "imul_nonzero (concat (np_triu (replicate 6 (replicate 6 1))))
     [r0, r1, r2, r3, r4, r5, r6, r7, r8, r9, r10, r11, r12, r13, r14, r15, r16, r17, r18,
      r19, r20] =
   Inr [r0, r1, r2, r3, r4, r5,
        0, r6, r7, r8, r9, r10,
        0, 0, r11, r12, r13, r14,
        0, 0, 0, r15, r16, r17,
        0, 0, 0, 0, r18, r19,
        0, 0, 0, 0, 0, r20]"
  by code_simp simp

lemma imul_nonzero_triu_ones_single:
  "imul_nonzero (concat (np_triu (replicate 6 (replicate 6 1)))) [r] =
   Inr [r, r, r, r, r, r,
        0, r, r, r, r, r,
        0, 0, r, r, r, r,
        0, 0, 0, r, r, r,
        0, 0, 0, 0, r, r,
        0, 0, 0, 0, 0, r]"
  by code_simp simp

lemma symmetrize_upper:
  "symmetrize (reshape_6_6 [r0, r1, r2, r3, r4, r5,
        0, r6, r7, r8, r9, r10,
        0, 0, r11, r12, r13, r14,
        0, 0, 0, r15, r16, r17,
        0, 0, 0, 0, r18, r19,
        0, 0, 0, 0, 0, r20]) =
   [[r0, r1 / 2, r2 / 2, r3 / 2, r4 / 2, r5 / 2],
    [r1 / 2, r6, r7 / 2, r8 / 2, r9 / 2, r10 / 2],
    [r2 / 2, r7 / 2, r11, r12 / 2, r13 / 2, r14 / 2],
    [r3 / 2, r8 / 2, r12 / 2, r15, r16 / 2, r17 / 2],
    [r4 / 2, r9 / 2, r13 / 2, r16 / 2, r18, r19 / 2],
    [r5 / 2, r10 / 2, r14 / 2, r17 / 2, r19 / 2, r20]]"
  by (simp add: symmetrize_def reshape_6_6_def upt_0_6)

lemma np_tile_once: "np_tile xs (Suc 0) = xs"
  by (simp add: np_tile_def)

lemma fit_coeffs_with_energies_full:
  "fit_coeffs_with_energies fit_two_samples jev (augmented_strain [eye 3] full_strains)
     [0, 1242] [2, 2] [eye 3] =
   Inr (map (map (\<lambda>x. x * eV_div_A3_to_GPa jev)) full_strain_tensor, 1)"
  by (simp add: fit_coeffs_with_energies_def Let_def np_tile_once augmented_full_strains
      energy_design_full fit_two_samples_full imul_nonzero_triu_ones symmetrize_upper
      full_strain_tensor_def)

lemma calc_full_strains:
  "calc_elastic_tensor fit_two_samples joule_electron_volt_relationship full_strains None
     (Some [0, 1242]) (Some [2, 2]) None False =
   Inr (map (map (\<lambda>x. x * eV_div_A3_to_GPa joule_electron_volt_relationship))
          full_strain_tensor, None)"
  by (simp add: calc_elastic_tensor_def used_rotations_None Let_def stress_usable_def
      energy_usable_def length_augmented_strain length_sample_inputs
      fit_coeffs_with_energies_full)

text \<open>On these two samples \<open>fit_two_samples\<close> is a least-squares fit with intercept.\<close>

lemma fit_two_samples_full_strains_least_squares:
  "least_squares_with_intercept
     (energy_design [2, 2] (augmented_strain [eye 3] full_strains)) [0, 1242]
     (intercept (fit_two_samples
        (energy_design [2, 2] (augmented_strain [eye 3] full_strains)) [0, 1242]))
     (coef (fit_two_samples
        (energy_design [2, 2] (augmented_strain [eye 3] full_strains)) [0, 1242]))"
  unfolding augmented_full_strains energy_design_full fit_two_samples_full
  by (rule rss_zero_least_squares) (simp_all add: rss_def dot_def ncols_def)

theorem energy_fit_tensor_symmetric_witness:
  "calc_elastic_tensor fit_two_samples joule_electron_volt_relationship full_strains None
     (Some [0, 1242]) (Some [2, 2]) None False =
   Inr (map (map (\<lambda>x. x * eV_div_A3_to_GPa joule_electron_volt_relationship))
          full_strain_tensor, None) \<and>
   map (map (\<lambda>x. x * eV_div_A3_to_GPa joule_electron_volt_relationship))
     full_strain_tensor ! 0 ! 3 =
   map (map (\<lambda>x. x * eV_div_A3_to_GPa joule_electron_volt_relationship))
     full_strain_tensor ! 3 ! 0 \<and>
   map (map (\<lambda>x. x * eV_div_A3_to_GPa joule_electron_volt_relationship))
     full_strain_tensor ! 0 ! 3 = 3 * eV_div_A3_to_GPa joule_electron_volt_relationship"
  using energy_fit_tensor_symmetric [OF calc_full_strains, of 0 3]
  by (simp add: calc_full_strains) (simp add: full_strain_tensor_def)

text \<open>
  Line 75 keeps the columns whose sum is not zero. For two samples strained along x
  and y only, these are the columns of the products \<open>xx\<close>, \<open>xy\<close> and \<open>yy\<close>: the design
  has four columns with the column of ones.
\<close>

lemma augmented_biaxial_strains:
  "augmented_strain [eye 3] biaxial_strains = [[1, 1, 0, 0, 0, 0], [2, 2, 0, 0, 0, 0]]"
  by (simp add: augmented_strain_def einsum_rotations_def eye_3 biaxial_strains_def
      rotate3_identity voigt_strain_def)

lemma kept_columns_biaxial:
  "nonzero_sum_columns (map (\<lambda>M. concat (np_triu M))
     (strain_products [2, 2] [[1, 1, 0, 0, 0, 0], [2, 2, 0, 0, 0, 0]])) = [0, 1, 7]"
  by code_simp

lemma energy_design_biaxial:
  "energy_design [2, 2] [[1, 1, 0, 0, 0, 0], [2, 2, 0, 0, 0, 0]] =
     [[1, 1, 1, 1], [1, 4, 4, 4]]"
  by code_simp

text \<open>
  The mask of line 79 selects the 21 cells of the upper triangle, so line 80 accepts 21
  coefficients or a single one, and raises for any other number.
\<close>

lemma triu_ones_nonzero:
  "length (filter (\<lambda>p. concat (np_triu (replicate 6 (replicate 6 1))) ! p \<noteq> 0)
     [0..<length (concat (np_triu (replicate 6 (replicate 6 (1::real)))))]) = 21"
  by code_simp

lemma imul_nonzero_triu_ones_raises:
  "length rhs \<noteq> 21 \<Longrightarrow> length rhs \<noteq> 1 \<Longrightarrow>
   imul_nonzero (concat (np_triu (replicate 6 (replicate 6 1)))) rhs =
     Inl Operands_not_broadcast"
  by (simp add: imul_nonzero_def Let_def triu_ones_nonzero)

lemma fit_coeffs_with_energies_biaxial:
  assumes "length (coef (fit (energy_design [2, 2]
              (augmented_strain [eye 3] biaxial_strains)) [e1, e2])) =
           ncols (energy_design [2, 2] (augmented_strain [eye 3] biaxial_strains))"
  shows "fit_coeffs_with_energies fit jev (augmented_strain [eye 3] biaxial_strains)
           [e1, e2] [2, 2] [eye 3] = Inl Operands_not_broadcast"
proof -
  have "length (coef (fit [[1, 1, 1, 1], [1, 4, 4, 4]] [e1, e2])) = 4"
    using assms by (simp add: augmented_biaxial_strains energy_design_biaxial ncols_def)
  then have "length (map (\<lambda>c. c * eV_div_A3_to_GPa jev)
      (tl (coef (fit [[1, 1, 1, 1], [1, 4, 4, 4]] [e1, e2])))) = 3"
    by simp
  then have "imul_nonzero (concat (np_triu (replicate 6 (replicate 6 1))))
      (map (\<lambda>c. c * eV_div_A3_to_GPa jev)
      (tl (coef (fit [[1, 1, 1, 1], [1, 4, 4, 4]] [e1, e2])))) = Inl Operands_not_broadcast"
    by (intro imul_nonzero_triu_ones_raises) simp_all
  then show ?thesis
    by (simp add: fit_coeffs_with_energies_def Let_def np_tile_once augmented_biaxial_strains
        energy_design_biaxial)
qed

lemma fit_two_samples_biaxial_length:
  "length (coef (fit_two_samples (energy_design [2, 2]
      (augmented_strain [eye 3] biaxial_strains)) [1, 4])) =
   ncols (energy_design [2, 2] (augmented_strain [eye 3] biaxial_strains))"
  by code_simp

text \<open>
  C6, the code at an input where columns are dropped: two samples strained along x and
  y only, of volume 2, with any two energies. The design keeps the columns 0, 1 and 7
  of the 36, the fit returns three coefficients besides the intercept, and line 80
  raises: nothing is scattered into the cells \<open>xx\<close>, \<open>xy\<close> and \<open>yy\<close>.
\<close>

theorem energy_fit_dropped_columns_raise:
  assumes "length (coef (fit (energy_design [2, 2]
              (augmented_strain [eye 3] biaxial_strains)) [e1, e2])) =
           ncols (energy_design [2, 2] (augmented_strain [eye 3] biaxial_strains))"
  shows "nonzero_sum_columns (map (\<lambda>M. concat (np_triu M))
           (strain_products [2, 2] (augmented_strain [eye 3] biaxial_strains))) = [0, 1, 7] \<and>
         fit_coeffs_with_energies fit jev (augmented_strain [eye 3] biaxial_strains)
           [e1, e2] [2, 2] [eye 3] = Inl Operands_not_broadcast"
proof -
  have "fit_coeffs_with_energies fit jev (augmented_strain [eye 3] biaxial_strains)
           [e1, e2] [2, 2] [eye 3] = Inl Operands_not_broadcast"
    using assms by (rule fit_coeffs_with_energies_biaxial)
  then show ?thesis
    by (simp add: augmented_biaxial_strains kept_columns_biaxial)
qed

theorem energy_fit_dropped_columns_raise_witness:
  "nonzero_sum_columns (map (\<lambda>M. concat (np_triu M))
     (strain_products [2, 2] (augmented_strain [eye 3] biaxial_strains))) = [0, 1, 7] \<and>
   fit_coeffs_with_energies fit_two_samples joule_electron_volt_relationship
     (augmented_strain [eye 3] biaxial_strains) [1, 4] [2, 2] [eye 3] =
     Inl Operands_not_broadcast"
  using energy_fit_dropped_columns_raise
    [where fit = fit_two_samples and ?e1.0 = 1 and ?e2.0 = 4
      and jev = joule_electron_volt_relationship, OF fit_two_samples_biaxial_length]
  by simp

text \<open>
  The test of line 75 is on the sum of a column. With a strain along y of opposite
  signs in the two samples the column of the product \<open>xy\<close> holds 1 and -1: it is not
  identically zero, and it is dropped all the same.
\<close>

lemma cancelling_column_dropped:
  "map (\<lambda>row. row ! 1) (map (\<lambda>M. concat (np_triu M))
     (strain_products [2, 2] (augmented_strain [eye 3] cancelling_strains))) = [1, -1] \<and>
   nonzero_sum_columns (map (\<lambda>M. concat (np_triu M))
     (strain_products [2, 2] (augmented_strain [eye 3] cancelling_strains))) = [0, 7]"
  by code_simp

text \<open>
  C7, the code at the same input: the strain list is not empty, the energies and the
  volumes have its length, and the call neither returns a tensor nor raises one of its
  own two errors. The conditions under which those two are raised are
  \<open>calc_not_enough_points_iff\<close> and \<open>calc_mismatch_iff\<close> above.
\<close>

theorem calc_elastic_tensor_broadcast_error:
  assumes "length (coef (fit (energy_design [2, 2]
              (augmented_strain [eye 3] biaxial_strains)) [e1, e2])) =
           ncols (energy_design [2, 2] (augmented_strain [eye 3] biaxial_strains))"
  shows "calc_elastic_tensor fit jev biaxial_strains None (Some [e1, e2]) (Some [2, 2])
           None rs = Inl Operands_not_broadcast"
proof -
  have "fit_coeffs_with_energies fit jev (augmented_strain [eye 3] biaxial_strains)
           [e1, e2] [2, 2] [eye 3] = Inl Operands_not_broadcast"
    using assms by (rule fit_coeffs_with_energies_biaxial)
  then show ?thesis
    by (simp add: calc_elastic_tensor_def used_rotations_None Let_def stress_usable_def
        energy_usable_def length_augmented_strain length_sample_inputs)
qed

theorem calc_elastic_tensor_broadcast_error_witness:
  "biaxial_strains \<noteq> [] \<and> length [1, 4 :: real] = length biaxial_strains \<and>
   length [2, 2 :: real] = length biaxial_strains \<and>
   calc_elastic_tensor fit_two_samples joule_electron_volt_relationship biaxial_strains None
     (Some [1, 4]) (Some [2, 2]) None False = Inl Operands_not_broadcast"
  using calc_elastic_tensor_broadcast_error
    [where fit = fit_two_samples and ?e1.0 = 1 and ?e2.0 = 4
      and jev = joule_electron_volt_relationship and rs = False,
      OF fit_two_samples_biaxial_length]
    length_sample_inputs
  by auto


end
